theory Spec2Isabelle
  imports Complex_Main
begin

unbundle bit_operations_syntax

section \<open>The LS-8 emulator of \<open>cpu.py\<close>\<close>

text \<open>
  The emulator is a Python class \<open>CPU\<close>. Its registers and memory cells are Python
  integers: unbounded, possibly negative, and never reduced by the code. They are
  modelled as \<open>int\<close>. Every exception Python can raise in the modelled code is a
  value; a handler returns either the updated machine or the reason it stopped. The
  one instruction that leaves the integers is DIV, whose result is a Python float: the
  model gives the register file with the float in it and follows the run no further.
\<close>

subsection \<open>Opcodes and constants\<close>

definition ADD :: int where "ADD = 0b10100000"
definition CALL :: int where "CALL = 0b01010000"
definition CMP :: int where "CMP = 0b10100111"
definition DEC :: int where "DEC = 0b01100110"
definition DIV :: int where "DIV = 0b10100011"
definition HLT :: int where "HLT = 0b00000001"
definition INC :: int where "INC = 0b01100101"
definition IRET :: int where "IRET = 0b00010011"
definition JEQ :: int where "JEQ = 0b01010101"
definition JMP :: int where "JMP = 0b01010100"
definition JNE :: int where "JNE = 0b01010110"
definition LD :: int where "LD = 0b10000011"
definition LDI :: int where "LDI = 0b10000010"
definition MUL :: int where "MUL = 0b10100010"
definition OR_opc :: int where "OR_opc = 0b10101010"
definition POP :: int where "POP = 0b01000110"
definition PRA :: int where "PRA = 0b01001000"
definition PRN :: int where "PRN = 0b01000111"
definition PUSH :: int where "PUSH = 0b01000101"
definition RET :: int where "RET = 0b00010001"
definition ST :: int where "ST = 0b10000100"
definition SUB :: int where "SUB = 0b10100001"

definition IM :: int where "IM = 5"
definition IS :: int where "IS = 6"
definition SP :: int where "SP = 7"

definition FL_LT :: int where "FL_LT = 0b100"
definition FL_GT :: int where "FL_GT = 0b010"
definition FL_EQ :: int where "FL_EQ = 0b001"

definition IS_TIMER :: int where "IS_TIMER = 0b00000001"
definition IS_KEYBOARD :: int where "IS_KEYBOARD = 0b00000010"

subsection \<open>Exceptions and the machine state\<close>

text \<open>
  \<open>Exception msg\<close> is the generic \<open>Exception\<close> the source raises itself, with its
  message; the others are raised by the Python runtime.
\<close>

datatype pyexn =
  IndexError | TypeError | ZeroDivisionError | ValueError | OverflowError | Exception string

text \<open>What \<open>print\<close> wrote: a decimal number and a newline, or one character.\<close>

datatype event = PrintLine int | PrintChar int

record cpu =
  pc :: int
  fl :: int
  ie :: int
  halted :: bool
  inst_set_pc :: bool
  ram :: "int list"
  reg :: "int list"
  out :: "event list"

text \<open>
  A Python float is an IEEE 754 double. Division of two integers gives a finite one:
  \<open>PyFloat negative m\<close> is the double with that sign bit and the magnitude \<open>m\<close>, so
  \<open>PyFloat True 0\<close> is \<open>-0.0\<close>. A register holds an integer or, after DIV, a float.
\<close>

datatype pyfloat = PyFloat bool rat

datatype pyval = IntV int | FloatV pyfloat

text \<open>
  A run of the model stops either because Python raised, or because DIV stored a
  float. \<open>FloatRegisters s rs\<close> is the machine after that store: its register file is
  \<open>rs\<close>, and its other components are those of \<open>s\<close>. Such a state lies outside the
  integer machine described here, so the model follows the run no further; the
  emulator itself goes on running from that state.
\<close>

datatype stop = Raised pyexn | FloatRegisters cpu "pyval list"

definition then_do :: "stop + 'a \<Rightarrow> ('a \<Rightarrow> stop + 'b) \<Rightarrow> stop + 'b" where
  "then_do m f = (case m of Inl e \<Rightarrow> Inl e | Inr x \<Rightarrow> f x)"

subsection \<open>Python list indexing\<close>

text \<open>
  A Python list of length \<open>n\<close> accepts the indices \<open>-n \<le> i < n\<close>; a negative index
  counts from the end. Any other index raises \<open>IndexError\<close>.
\<close>

definition py_index :: "nat \<Rightarrow> int \<Rightarrow> nat option" where
  "py_index n i =
     (if 0 \<le> i \<and> i < int n then Some (nat i)
      else if i < 0 \<and> - int n \<le> i then Some (nat (i + int n))
      else None)"

definition list_get :: "int list \<Rightarrow> int \<Rightarrow> stop + int" where
  "list_get xs i =
     (case py_index (length xs) i of
        None \<Rightarrow> Inl (Raised IndexError)
      | Some k \<Rightarrow> Inr (xs ! k))"

definition list_set :: "int list \<Rightarrow> int \<Rightarrow> int \<Rightarrow> stop + int list" where
  "list_set xs i v =
     (case py_index (length xs) i of
        None \<Rightarrow> Inl (Raised IndexError)
      | Some k \<Rightarrow> Inr (xs[k := v]))"

text \<open>
  The lists never change length: \<open>ram\<close> has 256 cells and \<open>reg\<close> has 8. A valid
  address \<open>a\<close> of \<open>ram\<close> denotes the cell \<open>cell a\<close>.
\<close>

definition wf_cpu :: "cpu \<Rightarrow> bool" where
  "wf_cpu s \<longleftrightarrow> length (ram s) = 256 \<and> length (reg s) = 8"

definition cell :: "int \<Rightarrow> nat" where
  "cell a = (if a < 0 then nat (a + 256) else nat a)"

definition reg_get :: "int \<Rightarrow> cpu \<Rightarrow> stop + int" where
  "reg_get r s = list_get (reg s) r"

definition reg_set :: "int \<Rightarrow> int \<Rightarrow> cpu \<Rightarrow> stop + cpu" where
  "reg_set r v s = then_do (list_set (reg s) r v) (\<lambda>rs. Inr (s\<lparr>reg := rs\<rparr>))"

subsection \<open>Construction, memory and stack\<close>

definition init_cpu :: cpu where
  "init_cpu =
     \<lparr>pc = 0, fl = 0, ie = 1, halted = False, inst_set_pc = False,
      ram = replicate 256 0, reg = (replicate 8 0)[7 := 0xf4], out = []\<rparr>"

text \<open>
  \<open>load\<close> reads the program file and stores each parsed number at the next address,
  from address 0. The file and its parsing are outside the model: \<open>load\<close> here takes
  the parsed numbers.
\<close>

fun load_from :: "int \<Rightarrow> int list \<Rightarrow> cpu \<Rightarrow> stop + cpu" where
  "load_from address [] s = Inr s"
| "load_from address (num # nums) s =
     then_do (list_set (ram s) address num)
       (\<lambda>m. load_from (address + 1) nums (s\<lparr>ram := m\<rparr>))"

definition load :: "int list \<Rightarrow> cpu \<Rightarrow> stop + cpu" where
  "load nums s = load_from 0 nums s"

definition ram_write :: "int \<Rightarrow> int \<Rightarrow> cpu \<Rightarrow> stop + cpu" where
  "ram_write mdr mar s = then_do (list_set (ram s) mar mdr) (\<lambda>m. Inr (s\<lparr>ram := m\<rparr>))"

definition ram_read :: "int \<Rightarrow> cpu \<Rightarrow> stop + int" where
  "ram_read mar s = list_get (ram s) mar"

definition push_val :: "int \<Rightarrow> cpu \<Rightarrow> stop + cpu" where
  "push_val val s =
     then_do (reg_get SP s) (\<lambda>sp.
     then_do (reg_set SP (sp - 1) s) (\<lambda>s1.
     then_do (reg_get 7 s1) (\<lambda>mar.
     ram_write val mar s1)))"

definition phandle_val :: "cpu \<Rightarrow> stop + (int \<times> cpu)" where
  "phandle_val s =
     then_do (reg_get 7 s) (\<lambda>mar.
     then_do (ram_read mar s) (\<lambda>val.
     then_do (reg_get SP s) (\<lambda>sp.
     then_do (reg_set SP (sp + 1) s) (\<lambda>s1.
     Inr (val, s1)))))"

subsection \<open>The ALU\<close>

text \<open>
  \<open>reg_b\<close> is \<open>None\<close> when the handler passes Python's \<open>None\<close> (INC and DEC);
  indexing a list with \<open>None\<close> raises \<open>TypeError\<close>. An augmented assignment
  \<open>reg[a] op= reg[b]\<close> reads \<open>reg[a]\<close>, then \<open>reg[b]\<close>, then stores.
\<close>

definition reg_operand :: "int option \<Rightarrow> cpu \<Rightarrow> stop + int" where
  "reg_operand r s = (case r of None \<Rightarrow> Inl (Raised TypeError) | Some i \<Rightarrow> reg_get i s)"

text \<open>
  Python's \<open>x / y\<close> on integers raises ZeroDivisionError for \<open>y = 0\<close>. Otherwise the
  result is the double nearest to the exact quotient, ties going to the even
  significand; its sign bit is set when exactly one of \<open>x\<close> and \<open>y\<close> is negative, also
  for a zero result. A quotient that rounds to \<open>2 ^ 1024\<close> or more raises OverflowError.
  A double has a significand of 53 bits, and its last bit is worth at least
  \<open>2 ^ - 1074\<close>: for a quotient \<open>q\<close> with \<open>2 ^ e \<le> q < 2 ^ (e + 1)\<close> the last bit is worth
  \<open>2 ^ u\<close> with \<open>u = max e (- 1022) - 52\<close>.
\<close>

fun bit_length :: "nat \<Rightarrow> nat" where
  "bit_length n = (if n = 0 then 0 else Suc (bit_length (n div 2)))"

declare bit_length.simps [simp del]

definition floor_log2 :: "nat \<Rightarrow> nat \<Rightarrow> int" where
  "floor_log2 a b =
     (let d = int (bit_length a) - int (bit_length b)
      in if (if 0 \<le> d then b * 2 ^ nat d \<le> a else b \<le> a * 2 ^ nat (- d)) then d else d - 1)"

definition round_half_even :: "nat \<Rightarrow> nat \<Rightarrow> nat" where
  "round_half_even num den =
     (let n = num div den; r = num mod den
      in if 2 * r < den then n
         else if den < 2 * r then n + 1
         else if even n then n else n + 1)"

definition true_div :: "int \<Rightarrow> int \<Rightarrow> pyexn + pyfloat" where
  "true_div x y =
     (if y = 0 then Inl ZeroDivisionError
      else
        let negative = ((x < 0) \<noteq> (y < 0)); a = nat \<bar>x\<bar>; b = nat \<bar>y\<bar>
        in if a = 0 then Inr (PyFloat negative 0)
           else
             let u = max (floor_log2 a b) (- 1022) - 52;
                 n = (if u < 0 then round_half_even (a * 2 ^ nat (- u)) b
                      else round_half_even a (b * 2 ^ nat u))
             in if 0 \<le> u \<and> 2 ^ 1024 \<le> n * 2 ^ nat u then Inl OverflowError
                else if u < 0 then Inr (PyFloat negative (of_nat n / 2 ^ nat (- u)))
                else Inr (PyFloat negative (of_nat n * 2 ^ nat u)))"

text \<open>
  \<open>reg[a] /= reg[b]\<close> reads \<open>reg[a]\<close>, then \<open>reg[b]\<close>, divides, and stores the float in
  \<open>reg[a]\<close>.
\<close>

definition div_assign :: "int \<Rightarrow> int option \<Rightarrow> cpu \<Rightarrow> stop + cpu" where
  "div_assign reg_a reg_b s =
     then_do (reg_get reg_a s) (\<lambda>x.
     then_do (reg_operand reg_b s) (\<lambda>y.
     case true_div x y of
       Inl e \<Rightarrow> Inl (Raised e)
     | Inr f \<Rightarrow>
         (case py_index (length (reg s)) reg_a of
            None \<Rightarrow> Inl (Raised IndexError)
          | Some k \<Rightarrow> Inl (FloatRegisters s ((map IntV (reg s))[k := FloatV f])))))"

definition aug_assign ::
  "(int \<Rightarrow> int \<Rightarrow> stop + int) \<Rightarrow> int \<Rightarrow> int option \<Rightarrow> cpu \<Rightarrow> stop + cpu" where
  "aug_assign f reg_a reg_b s =
     then_do (reg_get reg_a s) (\<lambda>x.
     then_do (reg_operand reg_b s) (\<lambda>y.
     then_do (f x y) (\<lambda>v.
     reg_set reg_a v s)))"

definition aug_assign_const ::
  "(int \<Rightarrow> int) \<Rightarrow> int \<Rightarrow> cpu \<Rightarrow> stop + cpu" where
  "aug_assign_const f reg_a s =
     then_do (reg_get reg_a s) (\<lambda>x. reg_set reg_a (f x) s)"

definition alu :: "string \<Rightarrow> int \<Rightarrow> int option \<Rightarrow> cpu \<Rightarrow> stop + cpu" where
  "alu op reg_a reg_b s =
     (if op = ''ADD'' then aug_assign (\<lambda>x y. Inr (x + y)) reg_a reg_b s
      else if op = ''SUB'' then aug_assign (\<lambda>x y. Inr (x - y)) reg_a reg_b s
      else if op = ''MUL'' then aug_assign (\<lambda>x y. Inr (x * y)) reg_a reg_b s
      else if op = ''DIV'' then div_assign reg_a reg_b s
      else if op = ''DEC'' then aug_assign_const (\<lambda>x. x - 1) reg_a s
      else if op = ''INC'' then aug_assign_const (\<lambda>x. x + 1) reg_a s
      else if op = ''CMP'' then
        (let s1 = s\<lparr>fl := fl s AND 0x11111000\<rparr> in
         then_do (reg_get reg_a s1) (\<lambda>x.
         then_do (reg_operand reg_b s1) (\<lambda>y.
         if x < y then Inr (s1\<lparr>fl := fl s1 OR FL_LT\<rparr>)
         else if x > y then Inr (s1\<lparr>fl := fl s1 OR FL_GT\<rparr>)
         else Inr (s1\<lparr>fl := fl s1 OR FL_EQ\<rparr>))))
      else if op = ''OR'' then aug_assign (\<lambda>x y. Inr (x OR y)) reg_a reg_b s
      else Inl (Raised (Exception ''Unsupported ALU operation'')))"

subsection \<open>Interrupts\<close>

text \<open>
  \<open>check_for_timer_int\<close> reads the wall clock. The clock is an input of the model:
  \<open>fired\<close> says whether at least a second has passed since the timer last fired.
\<close>

definition check_for_timer_int :: "bool \<Rightarrow> cpu \<Rightarrow> stop + cpu" where
  "check_for_timer_int fired s =
     (if fired then then_do (reg_get IS s) (\<lambda>x. reg_set IS (x OR IS_TIMER) s)
      else Inr s)"

fun push_regs :: "int list \<Rightarrow> cpu \<Rightarrow> stop + cpu" where
  "push_regs [] s = Inr s"
| "push_regs (r # rs) s =
     then_do (reg_get r s) (\<lambda>v.
     then_do (push_val v s) (\<lambda>s1.
     push_regs rs s1))"

definition deliver :: "nat \<Rightarrow> cpu \<Rightarrow> stop + cpu" where
  "deliver i s =
     (let s1 = s\<lparr>ie := 0\<rparr> in
      then_do (reg_get IS s1) (\<lambda>x.
      then_do (reg_set IS (x AND NOT (push_bit i 1)) s1) (\<lambda>s2.
      then_do (push_val (pc s2) s2) (\<lambda>s3.
      then_do (push_val (fl s3) s3) (\<lambda>s4.
      then_do (push_regs [0, 1, 2, 3, 4, 5, 6] s4) (\<lambda>s5.
      then_do (ram_read (0xf8 + int i) s5) (\<lambda>v.
      Inr (s5\<lparr>pc := v\<rparr>))))))))"

fun scan_ints :: "nat list \<Rightarrow> int \<Rightarrow> cpu \<Rightarrow> stop + cpu" where
  "scan_ints [] masked_ints s = Inr s"
| "scan_ints (i # is) masked_ints s =
     (if masked_ints AND push_bit i 1 \<noteq> 0 then deliver i s
      else scan_ints is masked_ints s)"

definition handle_ints :: "cpu \<Rightarrow> stop + cpu" where
  "handle_ints s =
     (if ie s = 0 then Inr s
      else
        then_do (reg_get IM s) (\<lambda>im.
        then_do (reg_get IS s) (\<lambda>is.
        scan_ints [0, 1, 2, 3, 4, 5, 6, 7] (im AND is) s)))"

subsection \<open>Instruction handlers\<close>

definition handle_ldi :: "int \<Rightarrow> int \<Rightarrow> cpu \<Rightarrow> stop + cpu" where
  "handle_ldi operand_a operand_b s = reg_set operand_a operand_b s"

definition handle_prn :: "int \<Rightarrow> int \<Rightarrow> cpu \<Rightarrow> stop + cpu" where
  "handle_prn operand_a operand_b s =
     then_do (reg_get operand_a s) (\<lambda>v. Inr (s\<lparr>out := out s @ [PrintLine v]\<rparr>))"

text \<open>
  \<open>chr\<close> accepts the code points below \<open>0x110000\<close>. It raises OverflowError for an
  argument that does not fit the C type \<open>int\<close> (32 bits), and ValueError for any other
  argument outside the code points.
\<close>

definition handle_pra :: "int \<Rightarrow> int \<Rightarrow> cpu \<Rightarrow> stop + cpu" where
  "handle_pra operand_a operand_b s =
     then_do (reg_get operand_a s) (\<lambda>v.
     if v < - (2 ^ 31) \<or> 2 ^ 31 \<le> v then Inl (Raised OverflowError)
     else if 0 \<le> v \<and> v < 0x110000 then Inr (s\<lparr>out := out s @ [PrintChar v]\<rparr>)
     else Inl (Raised ValueError))"

definition handle_add :: "int \<Rightarrow> int \<Rightarrow> cpu \<Rightarrow> stop + cpu" where
  "handle_add operand_a operand_b s = alu ''ADD'' operand_a (Some operand_b) s"

definition handle_sub :: "int \<Rightarrow> int \<Rightarrow> cpu \<Rightarrow> stop + cpu" where
  "handle_sub operand_a operand_b s = alu ''SUB'' operand_a (Some operand_b) s"

definition handle_mul :: "int \<Rightarrow> int \<Rightarrow> cpu \<Rightarrow> stop + cpu" where
  "handle_mul operand_a operand_b s = alu ''MUL'' operand_a (Some operand_b) s"

definition handle_div :: "int \<Rightarrow> int \<Rightarrow> cpu \<Rightarrow> stop + cpu" where
  "handle_div operand_a operand_b s = alu ''DIV'' operand_a (Some operand_b) s"

definition handle_dec :: "int \<Rightarrow> int \<Rightarrow> cpu \<Rightarrow> stop + cpu" where
  "handle_dec operand_a operand_b s = alu ''DEC'' operand_a None s"

definition handle_inc :: "int \<Rightarrow> int \<Rightarrow> cpu \<Rightarrow> stop + cpu" where
  "handle_inc operand_a operand_b s = alu ''INC'' operand_a None s"

definition handle_or :: "int \<Rightarrow> int \<Rightarrow> cpu \<Rightarrow> stop + cpu" where
  "handle_or operand_a operand_b s = alu ''OR'' operand_a (Some operand_b) s"

text \<open>The right-hand side \<open>phandle_val()\<close> runs before the store into \<open>reg[operand_a]\<close>.\<close>

definition handle_pop :: "int \<Rightarrow> int \<Rightarrow> cpu \<Rightarrow> stop + cpu" where
  "handle_pop operand_a operand_b s =
     then_do (phandle_val s) (\<lambda>(v, s1). reg_set operand_a v s1)"

definition handle_push :: "int \<Rightarrow> int \<Rightarrow> cpu \<Rightarrow> stop + cpu" where
  "handle_push operand_a operand_b s =
     then_do (reg_get operand_a s) (\<lambda>v. push_val v s)"

definition handle_call :: "int \<Rightarrow> int \<Rightarrow> cpu \<Rightarrow> stop + cpu" where
  "handle_call operand_a operand_b s =
     then_do (push_val (pc s + 2) s) (\<lambda>s1.
     then_do (reg_get operand_a s1) (\<lambda>v. Inr (s1\<lparr>pc := v\<rparr>)))"

definition handle_ret :: "int \<Rightarrow> int \<Rightarrow> cpu \<Rightarrow> stop + cpu" where
  "handle_ret operand_a operand_b s =
     then_do (phandle_val s) (\<lambda>(v, s1). Inr (s1\<lparr>pc := v\<rparr>))"

definition handle_ld :: "int \<Rightarrow> int \<Rightarrow> cpu \<Rightarrow> stop + cpu" where
  "handle_ld operand_a operand_b s =
     then_do (reg_get operand_b s) (\<lambda>mar.
     then_do (ram_read mar s) (\<lambda>v. reg_set operand_a v s))"

definition handle_st :: "int \<Rightarrow> int \<Rightarrow> cpu \<Rightarrow> stop + cpu" where
  "handle_st operand_a operand_b s =
     then_do (reg_get operand_b s) (\<lambda>mdr.
     then_do (reg_get operand_a s) (\<lambda>mar. ram_write mdr mar s))"

definition handle_jmp :: "int \<Rightarrow> int \<Rightarrow> cpu \<Rightarrow> stop + cpu" where
  "handle_jmp operand_a operand_b s =
     then_do (reg_get operand_a s) (\<lambda>v. Inr (s\<lparr>pc := v\<rparr>))"

definition handle_jeq :: "int \<Rightarrow> int \<Rightarrow> cpu \<Rightarrow> stop + cpu" where
  "handle_jeq operand_a operand_b s =
     (if fl s AND FL_EQ \<noteq> 0 then
        then_do (reg_get operand_a s) (\<lambda>v. Inr (s\<lparr>pc := v\<rparr>))
      else Inr (s\<lparr>inst_set_pc := False\<rparr>))"

definition handle_jne :: "int \<Rightarrow> int \<Rightarrow> cpu \<Rightarrow> stop + cpu" where
  "handle_jne operand_a operand_b s =
     (if \<not> (fl s AND FL_EQ \<noteq> 0) then
        then_do (reg_get operand_a s) (\<lambda>v. Inr (s\<lparr>pc := v\<rparr>))
      else Inr (s\<lparr>inst_set_pc := False\<rparr>))"

definition handle_cmp :: "int \<Rightarrow> int \<Rightarrow> cpu \<Rightarrow> stop + cpu" where
  "handle_cmp operand_a operand_b s = alu ''CMP'' operand_a (Some operand_b) s"

fun pop_regs :: "int list \<Rightarrow> cpu \<Rightarrow> stop + cpu" where
  "pop_regs [] s = Inr s"
| "pop_regs (i # is) s =
     then_do (phandle_val s) (\<lambda>(v, s1).
     then_do (reg_set i v s1) (\<lambda>s2.
     pop_regs is s2))"

definition handle_iret :: "int \<Rightarrow> int \<Rightarrow> cpu \<Rightarrow> stop + cpu" where
  "handle_iret operand_a operand_b s =
     then_do (pop_regs [6, 5, 4, 3, 2, 1, 0] s) (\<lambda>s1.
     then_do (phandle_val s1) (\<lambda>(f, s2).
     then_do (phandle_val (s2\<lparr>fl := f\<rparr>)) (\<lambda>(p, s3).
     Inr (s3\<lparr>pc := p, ie := 1\<rparr>))))"

definition handle_hlt :: "int \<Rightarrow> int \<Rightarrow> cpu \<Rightarrow> stop + cpu" where
  "handle_hlt operand_a operand_b s = Inr (s\<lparr>halted := True\<rparr>)"

subsection \<open>The branch table and the execution loop\<close>

definition branchtable :: "int \<rightharpoonup> (int \<Rightarrow> int \<Rightarrow> cpu \<Rightarrow> stop + cpu)" where
  "branchtable =
     map_of
       [(ADD, handle_add), (CALL, handle_call), (CMP, handle_cmp), (DEC, handle_dec),
        (DIV, handle_div), (HLT, handle_hlt), (INC, handle_inc), (IRET, handle_iret),
        (JEQ, handle_jeq), (JMP, handle_jmp), (JNE, handle_jne), (LD, handle_ld),
        (LDI, handle_ldi), (MUL, handle_mul), (OR_opc, handle_or), (POP, handle_pop),
        (PRA, handle_pra), (PRN, handle_prn), (PUSH, handle_push), (RET, handle_ret),
        (ST, handle_st), (SUB, handle_sub)]"

text \<open>Python's \<open>hex\<close>: lower-case digits after \<open>0x\<close>, a leading minus sign for negatives.\<close>

definition hex_digit :: "nat \<Rightarrow> char" where
  "hex_digit d = ''0123456789abcdef'' ! d"

fun hex_digits :: "nat \<Rightarrow> string" where
  "hex_digits n =
     (if n < 16 then [hex_digit n] else hex_digits (n div 16) @ [hex_digit (n mod 16)])"

definition hex :: "int \<Rightarrow> string" where
  "hex i = (if i < 0 then ''-0x'' @ hex_digits (nat (- i)) else ''0x'' @ hex_digits (nat i))"

text \<open>
  The part of one loop iteration after the opcode and both operand bytes are read:
  decode, dispatch through the branch table, advance the program counter.
\<close>

definition execute :: "int \<Rightarrow> int \<Rightarrow> int \<Rightarrow> cpu \<Rightarrow> stop + cpu" where
  "execute ir operand_a operand_b s =
     (let inst_size = (drop_bit 6 ir AND 0b11) + 1;
          s1 = s\<lparr>inst_set_pc := (drop_bit 4 ir AND 0b1 = 1)\<rparr>
      in
        then_do
          (case branchtable ir of
             Some handler \<Rightarrow> handler operand_a operand_b s1
           | None \<Rightarrow>
               Inl (Raised (Exception
                 (''Invalid instruction '' @ hex ir @ '' at address '' @ hex (pc s1)))))
          (\<lambda>s2. if \<not> inst_set_pc s2 then Inr (s2\<lparr>pc := pc s2 + inst_size\<rparr>) else Inr s2))"

definition fetch_execute :: "cpu \<Rightarrow> stop + cpu" where
  "fetch_execute s =
     then_do (list_get (ram s) (pc s)) (\<lambda>ir.
     then_do (ram_read (pc s + 1) s) (\<lambda>operand_a.
     then_do (ram_read (pc s + 2) s) (\<lambda>operand_b.
     execute ir operand_a operand_b s)))"

definition cycle :: "bool \<Rightarrow> cpu \<Rightarrow> stop + cpu" where
  "cycle fired s =
     then_do (check_for_timer_int fired s) (\<lambda>s1.
     then_do (handle_ints s1) (\<lambda>s2.
     fetch_execute s2))"

text \<open>
  \<open>run\<close> loops until \<open>halted\<close>. The list gives the clock's answer for each iteration
  and bounds the number of iterations; \<open>None\<close> means the loop was still running when
  the list ended.
\<close>

fun run :: "bool list \<Rightarrow> cpu \<Rightarrow> (stop + cpu) option" where
  "run [] s = (if halted s then Some (Inr s) else None)"
| "run (fired # rest) s =
     (if halted s then Some (Inr s)
      else case cycle fired s of
             Inl e \<Rightarrow> Some (Inl e)
           | Inr s1 \<Rightarrow> run rest s1)"


text \<open>A whole session on a fresh machine: construct the CPU, \<open>load\<close>, then \<open>run\<close>.\<close>

definition run_program :: "int list \<Rightarrow> bool list \<Rightarrow> (stop + cpu) option" where
  "run_program nums clock =
     (case load nums init_cpu of
        Inl e \<Rightarrow> Some (Inl e)
      | Inr s \<Rightarrow> run clock s)"

section \<open>Properties\<close>

subsection \<open>Sequencing and list access\<close>

lemma then_do_Inr [simp]: "then_do (Inr x) f = f x"
  by (simp add: then_do_def)

lemma then_do_Inl [simp]: "then_do (Inl e) f = Inl e"
  by (simp add: then_do_def)

lemma py_index_reg_invalid: "8 \<le> r \<Longrightarrow> py_index 8 r = None"
  by (simp add: py_index_def)

lemma py_index_ram_valid: "- 256 \<le> a \<Longrightarrow> a < 256 \<Longrightarrow> py_index 256 a = Some (cell a)"
  by (simp add: py_index_def cell_def)

lemma py_index_ram_invalid: "a < - 256 \<or> 256 \<le> a \<Longrightarrow> py_index 256 a = None"
  by (auto simp add: py_index_def)

lemma reg_get_valid:
  "length (reg s) = 8 \<Longrightarrow> py_index 8 r = Some k \<Longrightarrow> reg_get r s = Inr (reg s ! k)"
  by (simp add: reg_get_def list_get_def)

lemma reg_set_valid:
  "length (reg s) = 8 \<Longrightarrow> py_index 8 r = Some k \<Longrightarrow>
   reg_set r v s = Inr (s\<lparr>reg := (reg s)[k := v]\<rparr>)"
  by (simp add: reg_set_def list_set_def)

lemma reg_get_invalid:
  "length (reg s) = 8 \<Longrightarrow> py_index 8 r = None \<Longrightarrow> reg_get r s = Inl (Raised IndexError)"
  by (simp add: reg_get_def list_get_def)

lemma reg_set_invalid:
  "length (reg s) = 8 \<Longrightarrow> py_index 8 r = None \<Longrightarrow> reg_set r v s = Inl (Raised IndexError)"
  by (simp add: reg_set_def list_set_def)

lemma aug_assign_valid:
  "length (reg s) = 8 \<Longrightarrow> py_index 8 a = Some ka \<Longrightarrow> py_index 8 b = Some kb \<Longrightarrow>
   aug_assign (\<lambda>x y. Inr (f x y)) a (Some b) s =
     Inr (s\<lparr>reg := (reg s)[ka := f (reg s ! ka) (reg s ! kb)]\<rparr>)"
  by (simp add: aug_assign_def reg_operand_def reg_get_valid reg_set_valid)

lemma aug_assign_const_valid:
  "length (reg s) = 8 \<Longrightarrow> py_index 8 a = Some ka \<Longrightarrow>
   aug_assign_const f a s = Inr (s\<lparr>reg := (reg s)[ka := f (reg s ! ka)]\<rparr>)"
  by (simp add: aug_assign_const_def reg_get_valid reg_set_valid)

lemma aug_assign_invalid:
  "length (reg s) = 8 \<Longrightarrow> py_index 8 a = None \<Longrightarrow>
   aug_assign f a b s = Inl (Raised IndexError)"
  by (simp add: aug_assign_def reg_get_invalid)

lemma div_assign_invalid:
  "length (reg s) = 8 \<Longrightarrow> py_index 8 a = None \<Longrightarrow>
   div_assign a b s = Inl (Raised IndexError)"
  by (simp add: div_assign_def reg_get_invalid)

lemma aug_assign_const_invalid:
  "length (reg s) = 8 \<Longrightarrow> py_index 8 a = None \<Longrightarrow>
   aug_assign_const f a s = Inl (Raised IndexError)"
  by (simp add: aug_assign_const_def reg_get_invalid)

lemma wf_init_regs: "wf_cpu (init_cpu\<lparr>reg := [r0, r1, r2, r3, r4, r5, r6, r7]\<rparr>)"
  by (simp add: wf_cpu_def init_cpu_def)

lemma py_index_reg_0: "py_index 8 0 = Some 0"
  by (simp add: py_index_def)

lemma py_index_reg_1: "py_index 8 1 = Some 1"
  by (simp add: py_index_def)

subsection \<open>Arithmetic in the ALU\<close>

text \<open>
  C1 (as stated): ADD, SUB, MUL, OR, INC and DEC leave the destination register
  holding the result reduced modulo 256, so that ADD of 255 and 1 leaves 0. The code
  never reduces: ADD of 255 and 1 leaves 256.
\<close>

theorem alu_add_255_1_counterexample:
  "alu ''ADD'' 0 (Some 1) (init_cpu\<lparr>reg := [255, 1, 0, 0, 0, 0, 0, 0xf4]\<rparr>)
     = Inr (init_cpu\<lparr>reg := [256, 1, 0, 0, 0, 0, 0, 0xf4]\<rparr>)
   \<and> (256 :: int) \<noteq> (255 + 1) mod 256"
  by (simp add: alu_def aug_assign_valid [OF _ py_index_reg_0 py_index_reg_1])

text \<open>
  C1 (amended): for all valid register indices and all register values, each of ADD,
  SUB, MUL, OR, INC and DEC leaves the destination register holding the exact integer
  result, unbounded and not reduced modulo 256; nothing else changes.
\<close>

theorem alu_exact_result:
  assumes "wf_cpu s" and "py_index 8 a = Some ka" and "py_index 8 b = Some kb"
  shows "alu ''ADD'' a (Some b) s = Inr (s\<lparr>reg := (reg s)[ka := reg s ! ka + reg s ! kb]\<rparr>)
       \<and> alu ''SUB'' a (Some b) s = Inr (s\<lparr>reg := (reg s)[ka := reg s ! ka - reg s ! kb]\<rparr>)
       \<and> alu ''MUL'' a (Some b) s = Inr (s\<lparr>reg := (reg s)[ka := reg s ! ka * reg s ! kb]\<rparr>)
       \<and> alu ''OR'' a (Some b) s = Inr (s\<lparr>reg := (reg s)[ka := reg s ! ka OR reg s ! kb]\<rparr>)
       \<and> alu ''INC'' a None s = Inr (s\<lparr>reg := (reg s)[ka := reg s ! ka + 1]\<rparr>)
       \<and> alu ''DEC'' a None s = Inr (s\<lparr>reg := (reg s)[ka := reg s ! ka - 1]\<rparr>)"
  using assms by (simp add: wf_cpu_def alu_def aug_assign_valid aug_assign_const_valid)

theorem alu_exact_result_witness:
  "wf_cpu (init_cpu\<lparr>reg := [200, 100, 0, 0, 0, 0, 0, 0xf4]\<rparr>)
   \<and> py_index 8 0 = Some 0 \<and> py_index 8 1 = Some 1
   \<and> alu ''ADD'' 0 (Some 1) (init_cpu\<lparr>reg := [200, 100, 0, 0, 0, 0, 0, 0xf4]\<rparr>)
       = Inr (init_cpu\<lparr>reg := [300, 100, 0, 0, 0, 0, 0, 0xf4]\<rparr>)
   \<and> alu ''DEC'' 0 None (init_cpu\<lparr>reg := [200, 100, 0, 0, 0, 0, 0, 0xf4]\<rparr>)
       = Inr (init_cpu\<lparr>reg := [199, 100, 0, 0, 0, 0, 0, 0xf4]\<rparr>)"
  using alu_exact_result [OF wf_init_regs py_index_reg_0 py_index_reg_1,
      of 200 100 0 0 0 0 0 "0xf4"]
  by (simp add: wf_init_regs py_index_reg_0 py_index_reg_1)

subsection \<open>Comparison\<close>

lemma cmp_keep_bits: "((x AND 0x11111000) OR f) AND (7::int) = f AND 7"
  by (simp add: bit.conj_disj_distrib2 and.assoc)

lemma cmp_clear_bits: "(x AND 0x11111000) AND (7::int) = 0"
  by (simp add: and.assoc)

text \<open>
  C2 (as stated): the flag that CMP sets is chosen by comparing the two register
  values as unsigned integers. A register can hold a negative integer, and Python
  compares with the sign: after DEC of a register holding 0 the register holds -1, and
  CMP of -1 and 1 sets LT, although as unsigned bytes 255 is greater than 1.
\<close>

theorem alu_cmp_negative_counterexample:
  "then_do (alu ''DEC'' 0 None (init_cpu\<lparr>reg := [0, 1, 0, 0, 0, 0, 0, 0xf4]\<rparr>))
       (alu ''CMP'' 0 (Some 1))
     = Inr (init_cpu\<lparr>reg := [- 1, 1, 0, 0, 0, 0, 0, 0xf4], fl := FL_LT\<rparr>)
   \<and> (1 :: int) mod 256 < (- 1) mod 256
   \<and> FL_LT \<noteq> FL_GT"
  by (simp add: alu_def aug_assign_const_valid [OF _ py_index_reg_0] reg_operand_def
      reg_get_valid [OF _ py_index_reg_0] reg_get_valid [OF _ py_index_reg_1]
      init_cpu_def FL_LT_def FL_GT_def)

text \<open>
  C2 (amended): for every value of the flags and every pair of register values, CMP
  first clears the three comparison bits of FL and then sets exactly one of them,
  chosen by Python's comparison of the two integers with their signs: LT when the
  first value is smaller, GT when it is larger, EQ when they are equal. For two
  non-negative values this is the unsigned comparison. CMP of 3 and 5 leaves LT set
  and GT and EQ clear.
\<close>

theorem alu_cmp_sets_exactly_one_flag:
  fixes s :: cpu and a b :: int and ka kb :: nat
  defines "x \<equiv> reg s ! ka" and "y \<equiv> reg s ! kb"
  defines "f \<equiv> (if x < y then FL_LT else if x > y then FL_GT else FL_EQ)"
  assumes "wf_cpu s" and "py_index 8 a = Some ka" and "py_index 8 b = Some kb"
  shows "alu ''CMP'' a (Some b) s = Inr (s\<lparr>fl := (fl s AND 0x11111000) OR f\<rparr>)
       \<and> (fl s AND 0x11111000) AND (FL_LT OR FL_GT OR FL_EQ) = 0
       \<and> ((fl s AND 0x11111000) OR f) AND (FL_LT OR FL_GT OR FL_EQ) = f
       \<and> f \<in> {FL_LT, FL_GT, FL_EQ}
       \<and> (0 \<le> x \<and> 0 \<le> y \<longrightarrow>
            f = (if nat x < nat y then FL_LT else if nat x > nat y then FL_GT else FL_EQ))"
  using assms
  by (simp add: wf_cpu_def alu_def reg_operand_def reg_get_valid Let_def cmp_keep_bits
      cmp_clear_bits FL_LT_def FL_GT_def FL_EQ_def)

theorem alu_cmp_sets_exactly_one_flag_witness:
  "wf_cpu (init_cpu\<lparr>reg := [3, 5, 0, 0, 0, 0, 0, 0xf4]\<rparr>)
   \<and> py_index 8 0 = Some 0 \<and> py_index 8 1 = Some 1
   \<and> alu ''CMP'' 0 (Some 1) (init_cpu\<lparr>reg := [3, 5, 0, 0, 0, 0, 0, 0xf4]\<rparr>)
       = Inr (init_cpu\<lparr>reg := [3, 5, 0, 0, 0, 0, 0, 0xf4], fl := FL_LT\<rparr>)
   \<and> FL_LT AND FL_GT = 0 \<and> FL_LT AND FL_EQ = 0"
  using alu_cmp_sets_exactly_one_flag [OF wf_init_regs py_index_reg_0 py_index_reg_1,
      of 3 5 0 0 0 0 0 "0xf4"]
  by (simp add: wf_cpu_def py_index_reg_0 py_index_reg_1 init_cpu_def
      FL_LT_def FL_GT_def FL_EQ_def)

subsection \<open>Memory access\<close>

text \<open>
  C7 (as stated): every read or write with an address outside 0..255 is checked and
  rejected rather than wrapped. The code has no check of its own and Python accepts
  the addresses -256..-1: a read at -1 returns the content of cell 255.
\<close>

theorem ram_read_negative_counterexample:
  "ram_read (- 1) (init_cpu\<lparr>ram := (ram init_cpu)[255 := 42]\<rparr>) = Inr 42
   \<and> ram_write 7 (- 1) init_cpu = Inr (init_cpu\<lparr>ram := (ram init_cpu)[255 := 7]\<rparr>)"
  by (simp add: ram_read_def ram_write_def list_get_def list_set_def py_index_def init_cpu_def)

text \<open>
  C7 (amended): a read or write with an address below -256 or above 255 raises
  Python's IndexError and changes nothing; an address from -256 to -1 is not rejected
  but wraps to the cell 256 higher; with an address from -256 to 255 a read returns the
  content of the cell and a write changes that one cell and nothing else.
\<close>

theorem ram_access:
  assumes "wf_cpu s"
  shows "(- 256 \<le> a \<and> a < 256 \<longrightarrow>
            ram_read a s = Inr (ram s ! cell a) \<and>
            ram_write v a s = Inr (s\<lparr>ram := (ram s)[cell a := v]\<rparr>)) \<and>
         (a < - 256 \<or> 256 \<le> a \<longrightarrow>
            ram_read a s = Inl (Raised IndexError) \<and>
            ram_write v a s = Inl (Raised IndexError)) \<and>
         (a < 0 \<longrightarrow> cell a = nat (a + 256)) \<and> (0 \<le> a \<longrightarrow> cell a = nat a)"
  using assms
  by (auto simp add: wf_cpu_def ram_read_def ram_write_def list_get_def list_set_def
      py_index_ram_valid py_index_ram_invalid cell_def)

theorem ram_access_witness:
  "wf_cpu init_cpu
   \<and> ram_read 255 init_cpu = Inr 0
   \<and> ram_write 9 (- 256) init_cpu = Inr (init_cpu\<lparr>ram := (ram init_cpu)[0 := 9]\<rparr>)
   \<and> ram_read 256 init_cpu = Inl (Raised IndexError)
   \<and> ram_write 9 (- 257) init_cpu = Inl (Raised IndexError)"
proof -
  have wf: "wf_cpu init_cpu"
    by (simp add: wf_cpu_def init_cpu_def)
  show ?thesis
    using ram_access [OF wf, of 255 9] ram_access [OF wf, of "- 256" 9]
      ram_access [OF wf, of 256 9] ram_access [OF wf, of "- 257" 9]
    by (simp add: wf_cpu_def cell_def init_cpu_def)
qed

subsection \<open>Division\<close>
















lemmas true_div_eval = true_div_def floor_log2_def round_half_even_def Let_def bit_length.simps



lemma true_div_minus_zero: "true_div 0 (- 5) = Inr (PyFloat True 0)"
  by (simp add: true_div_eval)

lemma true_div_1_3: "true_div 1 3 = Inr (PyFloat False (6004799503160661 / 2 ^ 54))"
  by (simp add: true_div_eval)


text \<open>
  The largest double is \<open>2 ^ 1024 - 2 ^ 971\<close>; a quotient half a unit in the last place
  above it is a tie and rounds up, out of the range.
\<close>

lemma true_div_largest:
  "true_div (2 ^ 1024 - 2 ^ 970 - 1) 1 = Inr (PyFloat False (2 ^ 1024 - 2 ^ 971))"
  "true_div (2 ^ 1024 - 2 ^ 970) 1 = Inl OverflowError"
  by (simp_all add: true_div_eval)

text \<open>The smallest positive double is \<open>2 ^ - 1074\<close>; half of it is a tie and rounds to zero.\<close>

lemma true_div_smallest:
  "true_div 1 (2 ^ 1074) = Inr (PyFloat False (1 / 2 ^ 1074))"
  "true_div (- 1) (2 ^ 1075) = Inr (PyFloat True 0)"
  by (simp_all add: true_div_eval)




subsection \<open>Conditional jumps\<close>

lemmas opcode_defs =
  ADD_def CALL_def CMP_def DEC_def DIV_def HLT_def INC_def IRET_def JEQ_def JMP_def
  JNE_def LD_def LDI_def MUL_def OR_opc_def POP_def PRA_def PRN_def PUSH_def RET_def
  ST_def SUB_def

lemma branchtable_JEQ: "branchtable JEQ = Some handle_jeq"
  by (simp add: branchtable_def opcode_defs)

lemma branchtable_JNE: "branchtable JNE = Some handle_jne"
  by (simp add: branchtable_def opcode_defs)

lemma decode_JEQ: "drop_bit 6 JEQ AND (3::int) = 1" "drop_bit 4 JEQ AND (1::int) = 1"
  by (simp_all add: JEQ_def drop_bit_eq_div)

lemma decode_JNE: "drop_bit 6 JNE AND (3::int) = 1" "drop_bit 4 JNE AND (1::int) = 1"
  by (simp_all add: JNE_def drop_bit_eq_div)

text \<open>
  C9: decoding JEQ or JNE sets the "sets PC" flag. In every state whose equal flag is
  clear, JEQ cancels the flag and the dispatcher advances PC by the instruction size
  2; in every state whose equal flag is set, JNE does the same. On the taken branch
  (JEQ with the flag set, JNE with it clear) PC becomes the value of the register the
  operand names, the "sets PC" flag stays, and the dispatcher adds nothing.
\<close>

theorem jeq_jne_fall_through_and_taken:
  "(fl s AND FL_EQ = 0 \<longrightarrow>
      handle_jeq a b (s\<lparr>inst_set_pc := True\<rparr>) = Inr (s\<lparr>inst_set_pc := False\<rparr>) \<and>
      execute JEQ a b s = Inr (s\<lparr>inst_set_pc := False, pc := pc s + 2\<rparr>)) \<and>
   (fl s AND FL_EQ \<noteq> 0 \<longrightarrow>
      handle_jne a b (s\<lparr>inst_set_pc := True\<rparr>) = Inr (s\<lparr>inst_set_pc := False\<rparr>) \<and>
      execute JNE a b s = Inr (s\<lparr>inst_set_pc := False, pc := pc s + 2\<rparr>)) \<and>
   (wf_cpu s \<and> py_index 8 a = Some ka \<and> fl s AND FL_EQ \<noteq> 0 \<longrightarrow>
      execute JEQ a b s = Inr (s\<lparr>inst_set_pc := True, pc := reg s ! ka\<rparr>)) \<and>
   (wf_cpu s \<and> py_index 8 a = Some ka \<and> fl s AND FL_EQ = 0 \<longrightarrow>
      execute JNE a b s = Inr (s\<lparr>inst_set_pc := True, pc := reg s ! ka\<rparr>))"
  by (simp add: execute_def branchtable_JEQ branchtable_JNE decode_JEQ decode_JNE
      handle_jeq_def handle_jne_def wf_cpu_def reg_get_valid)

theorem jeq_jne_fall_through_and_taken_witness:
  "wf_cpu (init_cpu\<lparr>reg := [64, 0, 0, 0, 0, 0, 0, 0xf4]\<rparr>) \<and> py_index 8 0 = Some 0
   \<and> execute JEQ 0 0 (init_cpu\<lparr>reg := [64, 0, 0, 0, 0, 0, 0, 0xf4]\<rparr>)
       = Inr (init_cpu\<lparr>reg := [64, 0, 0, 0, 0, 0, 0, 0xf4], pc := 2\<rparr>)
   \<and> execute JNE 0 0 (init_cpu\<lparr>reg := [64, 0, 0, 0, 0, 0, 0, 0xf4]\<rparr>)
       = Inr (init_cpu\<lparr>reg := [64, 0, 0, 0, 0, 0, 0, 0xf4], inst_set_pc := True, pc := 64\<rparr>)
   \<and> execute JNE 0 0 (init_cpu\<lparr>reg := [64, 0, 0, 0, 0, 0, 0, 0xf4], fl := FL_EQ\<rparr>)
       = Inr (init_cpu\<lparr>reg := [64, 0, 0, 0, 0, 0, 0, 0xf4], fl := FL_EQ, pc := 2\<rparr>)
   \<and> execute JEQ 0 0 (init_cpu\<lparr>reg := [64, 0, 0, 0, 0, 0, 0, 0xf4], fl := FL_EQ\<rparr>)
       = Inr (init_cpu\<lparr>reg := [64, 0, 0, 0, 0, 0, 0, 0xf4], fl := FL_EQ,
                inst_set_pc := True, pc := 64\<rparr>)"
  using jeq_jne_fall_through_and_taken
      [of "init_cpu\<lparr>reg := [64, 0, 0, 0, 0, 0, 0, 0xf4]\<rparr>" 0 0 0]
    jeq_jne_fall_through_and_taken
      [of "init_cpu\<lparr>reg := [64, 0, 0, 0, 0, 0, 0, 0xf4], fl := FL_EQ\<rparr>" 0 0 0]
  by (simp add: wf_cpu_def py_index_reg_0 init_cpu_def FL_EQ_def)

subsection \<open>Register operands\<close>

lemma branchtable_LDI: "branchtable LDI = Some handle_ldi"
  by (simp add: branchtable_def opcode_defs)

lemma branchtable_ADD: "branchtable ADD = Some handle_add"
  by (simp add: branchtable_def opcode_defs)

text \<open>
  C10: no handler checks a register operand against the size 8 of the register file.
  For every operand byte from 8 upwards (so for 8 to 255) the index is outside the
  list, the access in LDI and in every ALU handler fails, and what comes out of the
  handler and of the dispatcher is Python's own IndexError, not an error the emulator
  diagnoses.
\<close>

theorem register_operand_out_of_bounds:
  assumes "wf_cpu s" and "8 \<le> a"
  shows "py_index (length (reg s)) a = None
       \<and> handle_ldi a b s = Inl (Raised IndexError)
       \<and> handle_add a b s = Inl (Raised IndexError)
       \<and> handle_sub a b s = Inl (Raised IndexError)
       \<and> handle_mul a b s = Inl (Raised IndexError)
       \<and> handle_div a b s = Inl (Raised IndexError)
       \<and> handle_or a b s = Inl (Raised IndexError)
       \<and> handle_inc a b s = Inl (Raised IndexError)
       \<and> handle_dec a b s = Inl (Raised IndexError)
       \<and> handle_cmp a b s = Inl (Raised IndexError)
       \<and> execute LDI a b s = Inl (Raised IndexError)
       \<and> execute ADD a b s = Inl (Raised IndexError)"
  using assms
  by (simp add: wf_cpu_def py_index_reg_invalid handle_ldi_def handle_add_def
      handle_sub_def handle_mul_def handle_div_def handle_or_def handle_inc_def
      handle_dec_def handle_cmp_def alu_def aug_assign_invalid aug_assign_const_invalid
      div_assign_invalid
      reg_set_invalid reg_get_invalid execute_def branchtable_LDI branchtable_ADD)

theorem register_operand_out_of_bounds_witness:
  "wf_cpu init_cpu \<and> (8 :: int) \<le> 8
   \<and> handle_ldi 8 5 init_cpu = Inl (Raised IndexError)
   \<and> execute ADD 8 0 init_cpu = Inl (Raised IndexError)"
proof -
  have wf: "wf_cpu init_cpu"
    by (simp add: wf_cpu_def init_cpu_def)
  show ?thesis
    using register_operand_out_of_bounds [OF wf, of 8 5]
      register_operand_out_of_bounds [OF wf, of 8 0]
    by (simp add: wf)
qed

subsection \<open>The stack\<close>

lemma py_index_reg_7: "py_index 8 7 = Some 7"
  by (simp add: py_index_def)

lemma py_index_reg_less: "py_index 8 r = Some k \<Longrightarrow> k < 8"
  by (auto simp add: py_index_def split: if_splits)

lemma cell_less: "- 256 \<le> a \<Longrightarrow> a < 256 \<Longrightarrow> cell a < 256"
  by (auto simp add: cell_def)

lemma push_val_ok:
  assumes "length (reg s) = 8" and "length (ram s) = 256"
    and "- 255 \<le> reg s ! 7" and "reg s ! 7 \<le> 256"
  shows "push_val v s =
           Inr (s\<lparr>reg := (reg s)[7 := reg s ! 7 - 1],
                  ram := (ram s)[cell (reg s ! 7 - 1) := v]\<rparr>)"
  using assms
  by (simp add: push_val_def SP_def reg_get_valid [OF _ py_index_reg_7]
      reg_set_valid [OF _ py_index_reg_7] ram_write_def list_set_def py_index_ram_valid)

lemma phandle_val_ok:
  assumes "length (reg s) = 8" and "length (ram s) = 256"
    and "- 256 \<le> reg s ! 7" and "reg s ! 7 < 256"
  shows "phandle_val s =
           Inr (ram s ! cell (reg s ! 7), s\<lparr>reg := (reg s)[7 := reg s ! 7 + 1]\<rparr>)"
  using assms
  by (simp add: phandle_val_def SP_def reg_get_valid [OF _ py_index_reg_7]
      reg_set_valid [OF _ py_index_reg_7] ram_read_def list_get_def py_index_ram_valid)

text \<open>
  C5 (as stated): PUSH r followed at once by POP r' leaves r' holding the value of r
  and SP equal to its value before the push. POP into register 7 stores the popped
  value over SP: after PUSH R0, POP R7 with R0 = 5 and SP = 0xf4, SP is 5.
\<close>

theorem push_pop_into_sp_counterexample:
  "then_do (handle_push 0 0 (init_cpu\<lparr>reg := [5, 0, 0, 0, 0, 0, 0, 0xf4]\<rparr>)) (handle_pop 7 0)
     = Inr (init_cpu\<lparr>reg := [5, 0, 0, 0, 0, 0, 0, 5], ram := (ram init_cpu)[0xf3 := 5]\<rparr>)
   \<and> (5 :: int) \<noteq> 0xf4"
  by (simp add: handle_push_def handle_pop_def reg_get_def reg_set_def list_get_def
      list_set_def py_index_def push_val_def phandle_val_def SP_def ram_write_def
      ram_read_def init_cpu_def)

text \<open>
  C5 (amended): for every value and every SP from -255 to 256 (which contains the
  valid stack range), push decrements SP and then writes the value at the new SP, and
  pop (for SP below 256) reads the value at SP and then increments SP. Hence PUSH r
  followed at once by POP r' leaves r' holding the value r held before the push and
  changes no other register; so SP is back at its value before the push whenever r'
  is not register 7, the stack pointer itself.
\<close>

theorem push_pop_round_trip:
  assumes "wf_cpu s" and "py_index 8 r = Some kr" and "py_index 8 r' = Some kr'"
    and "- 255 \<le> reg s ! 7" and "reg s ! 7 \<le> 256"
  shows "push_val v s =
           Inr (s\<lparr>reg := (reg s)[7 := reg s ! 7 - 1],
                  ram := (ram s)[cell (reg s ! 7 - 1) := v]\<rparr>)
       \<and> (reg s ! 7 < 256 \<longrightarrow> phandle_val s =
           Inr (ram s ! cell (reg s ! 7), s\<lparr>reg := (reg s)[7 := reg s ! 7 + 1]\<rparr>))
       \<and> then_do (handle_push r b s) (handle_pop r' b') =
           Inr (s\<lparr>reg := (reg s)[kr' := reg s ! kr],
                  ram := (ram s)[cell (reg s ! 7 - 1) := reg s ! kr]\<rparr>)
       \<and> (reg s)[kr' := reg s ! kr] ! kr' = reg s ! kr
       \<and> (kr' \<noteq> 7 \<longrightarrow> (reg s)[kr' := reg s ! kr] ! 7 = reg s ! 7)"
proof -
  from assms have len: "length (reg s) = 8" "length (ram s) = 256"
    by (simp_all add: wf_cpu_def)
  have kr': "kr' < 8"
    using assms(3) by (rule py_index_reg_less)
  have upd: "(reg s)[7 := reg s ! 7 - 1, 7 := reg s ! 7, kr' := x] = (reg s)[kr' := x]" for x
    by (simp add: list_update_same_conv len)
  have push: "push_val v s =
           Inr (s\<lparr>reg := (reg s)[7 := reg s ! 7 - 1],
                  ram := (ram s)[cell (reg s ! 7 - 1) := v]\<rparr>)" for v
    using len assms(4,5) by (rule push_val_ok)
  have pop: "reg s ! 7 < 256 \<longrightarrow> phandle_val s =
           Inr (ram s ! cell (reg s ! 7), s\<lparr>reg := (reg s)[7 := reg s ! 7 + 1]\<rparr>)"
    using len assms(4) by (simp add: phandle_val_ok)
  have rt: "then_do (handle_push r b s) (handle_pop r' b') =
           Inr (s\<lparr>reg := (reg s)[kr' := reg s ! kr],
                  ram := (ram s)[cell (reg s ! 7 - 1) := reg s ! kr]\<rparr>)"
    using len assms(2-5)
    by (simp add: handle_push_def handle_pop_def reg_get_valid push phandle_val_ok
        reg_set_valid cell_less upd)
  show ?thesis
    using push pop rt kr' len by simp
qed

theorem push_pop_round_trip_witness:
  "wf_cpu (init_cpu\<lparr>reg := [5, 0, 0, 0, 0, 0, 0, 0xf4]\<rparr>)
   \<and> py_index 8 0 = Some 0 \<and> py_index 8 1 = Some 1
   \<and> push_val 5 (init_cpu\<lparr>reg := [5, 0, 0, 0, 0, 0, 0, 0xf4]\<rparr>)
       = Inr (init_cpu\<lparr>reg := [5, 0, 0, 0, 0, 0, 0, 0xf3], ram := (ram init_cpu)[0xf3 := 5]\<rparr>)
   \<and> phandle_val (init_cpu\<lparr>reg := [5, 0, 0, 0, 0, 0, 0, 0xf4]\<rparr>)
       = Inr (ram init_cpu ! 0xf4, init_cpu\<lparr>reg := [5, 0, 0, 0, 0, 0, 0, 0xf5]\<rparr>)
   \<and> then_do (handle_push 0 0 (init_cpu\<lparr>reg := [5, 0, 0, 0, 0, 0, 0, 0xf4]\<rparr>)) (handle_pop 1 0)
       = Inr (init_cpu\<lparr>reg := [5, 5, 0, 0, 0, 0, 0, 0xf4], ram := (ram init_cpu)[0xf3 := 5]\<rparr>)"
  using push_pop_round_trip [OF wf_init_regs py_index_reg_0 py_index_reg_1,
      of 5 0 0 0 0 0 0 "0xf4" 5 0 0]
  by (simp add: wf_init_regs py_index_reg_0 py_index_reg_1 cell_def)

subsection \<open>Invalid opcodes\<close>

lemma branchtable_0: "branchtable 0 = None"
  by (simp add: branchtable_def opcode_defs)

lemma branchtable_0xff: "branchtable 0xff = None"
  by (simp add: branchtable_def opcode_defs)

lemma hex_255: "hex 255 = ''0xff''"
  by (simp add: hex_def hex_digit_def)

lemma hex_0: "hex 0 = ''0x0''"
  by (simp add: hex_def hex_digit_def)

lemma load_0xff: "load [0xff] init_cpu = Inr (init_cpu\<lparr>ram := (ram init_cpu)[0 := 0xff]\<rparr>)"
  by (simp add: load_def list_set_def py_index_def init_cpu_def)

lemma timer_and_ints_initially:
  "check_for_timer_int False (init_cpu\<lparr>ram := m\<rparr>) = Inr (init_cpu\<lparr>ram := m\<rparr>)"
  "handle_ints (init_cpu\<lparr>ram := m\<rparr>) = Inr (init_cpu\<lparr>ram := m\<rparr>)"
  by (simp_all add: check_for_timer_int_def handle_ints_def reg_get_def IS_def IM_def
      list_get_def py_index_def init_cpu_def)

lemma run_0xff:
  "run (fired # rest) (init_cpu\<lparr>ram := (ram init_cpu)[0 := 0xff]\<rparr>) =
     Some (Inl (Raised (Exception ''Invalid instruction 0xff at address 0x0'')))"
  by (cases fired)
     (simp_all add: cycle_def check_for_timer_int_def handle_ints_def reg_get_def
      reg_set_def IS_def IM_def list_get_def list_set_def py_index_def init_cpu_def
      IS_TIMER_def fetch_execute_def ram_read_def execute_def branchtable_0xff hex_255 hex_0)

lemma fetch_invalid:
  assumes "wf_cpu s" and "- 256 \<le> pc s" and "pc s \<le> 253"
    and "branchtable (ram s ! cell (pc s)) = None"
  shows "fetch_execute s =
           Inl (Raised (Exception (''Invalid instruction '' @ hex (ram s ! cell (pc s))
                                   @ '' at address '' @ hex (pc s))))"
  using assms
  by (simp add: wf_cpu_def fetch_execute_def ram_read_def list_get_def py_index_ram_valid
      execute_def)

text \<open>
  C6 (as stated): every fetched opcode without an entry in the branch table ends the
  run with a report of the opcode and of PC. The loop reads both operand bytes before
  it looks the opcode up, so at PC 254 or 255 the read past the memory raises
  IndexError first: the program LDI R0,254; JMP R0 reaches address 254, fetches the
  unmapped opcode 0 there and stops with IndexError, not with the report.
\<close>

theorem invalid_opcode_at_254_counterexample:
  "branchtable 0 = None
   \<and> run_program [LDI, 0, 254, JMP, 0] [False, False, False] = Some (Inl (Raised IndexError))"
proof
  show "branchtable 0 = None"
    by (rule branchtable_0)
  show "run_program [LDI, 0, 254, JMP, 0] [False, False, False] = Some (Inl (Raised IndexError))"
    by code_simp
qed

text \<open>
  C6 (amended): whenever the opcode fetched at PC has no entry in the branch table and
  the addresses PC + 1 and PC + 2 of the operand bytes are inside the memory
  (-256 \<le> PC \<le> 253), the iteration raises the exception whose message holds the
  opcode and PC in hexadecimal, and the run ends there whatever the clock would have
  said later: no further instruction is executed. In particular the image whose only
  byte is 0xFF, loaded into a fresh machine, stops with
  "Invalid instruction 0xff at address 0x0" in the first iteration.
\<close>

theorem invalid_opcode_report:
  "(wf_cpu s \<and> - 256 \<le> pc s \<and> pc s \<le> 253 \<and> branchtable (ram s ! cell (pc s)) = None \<longrightarrow>
      fetch_execute s =
        Inl (Raised (Exception (''Invalid instruction '' @ hex (ram s ! cell (pc s))
                                @ '' at address '' @ hex (pc s)))))
   \<and> (\<not> halted s0 \<and> check_for_timer_int fired s0 = Inr s1 \<and> handle_ints s1 = Inr s
        \<and> wf_cpu s \<and> - 256 \<le> pc s \<and> pc s \<le> 253
        \<and> branchtable (ram s ! cell (pc s)) = None \<longrightarrow>
      run (fired # rest) s0 =
        Some (Inl (Raised (Exception (''Invalid instruction '' @ hex (ram s ! cell (pc s))
                                      @ '' at address '' @ hex (pc s))))))
   \<and> run_program [0xff] (fired # rest) =
        Some (Inl (Raised (Exception ''Invalid instruction 0xff at address 0x0'')))"
  by (simp add: fetch_invalid cycle_def)
     (simp only: run_program_def load_0xff sum.case run_0xff)

theorem invalid_opcode_report_witness:
  "wf_cpu (init_cpu\<lparr>ram := (ram init_cpu)[0 := 0xff]\<rparr>)
   \<and> \<not> halted (init_cpu\<lparr>ram := (ram init_cpu)[0 := 0xff]\<rparr>)
   \<and> branchtable (ram (init_cpu\<lparr>ram := (ram init_cpu)[0 := 0xff]\<rparr>) ! cell 0) = None
   \<and> fetch_execute (init_cpu\<lparr>ram := (ram init_cpu)[0 := 0xff]\<rparr>) =
        Inl (Raised (Exception ''Invalid instruction 0xff at address 0x0''))
   \<and> run [False, True] (init_cpu\<lparr>ram := (ram init_cpu)[0 := 0xff]\<rparr>) =
        Some (Inl (Raised (Exception ''Invalid instruction 0xff at address 0x0'')))"
  using invalid_opcode_report
      [of "init_cpu\<lparr>ram := (ram init_cpu)[0 := 0xff]\<rparr>"
          "init_cpu\<lparr>ram := (ram init_cpu)[0 := 0xff]\<rparr>" False
          "init_cpu\<lparr>ram := (ram init_cpu)[0 := 0xff]\<rparr>" "[True]"]
  by (simp add: timer_and_ints_initially)
     (simp add: wf_cpu_def init_cpu_def cell_def branchtable_0xff hex_255 hex_0)

subsection \<open>Interrupt delivery\<close>

lemma mask_test: "(m AND 2 ^ i = (0::int)) = (\<not> bit m i)"
  by (rule and_exp_eq_0_iff_not_bit)

lemma scan_ints_lowest:
  assumes "sorted js" and "distinct js" and "i \<in> set js" and "bit m i"
    and "\<forall>j\<in>set js. j < i \<longrightarrow> \<not> bit m j"
  shows "scan_ints js m s = deliver i s"
  using assms
proof (induction js)
  case Nil
  then show ?case by simp
next
  case (Cons j js)
  show ?case
  proof (cases "j = i")
    case True
    with Cons.prems show ?thesis by (simp add: mask_test)
  next
    case False
    with Cons.prems have "j < i" by auto
    with Cons.prems have "\<not> bit m j" by simp
    moreover have "scan_ints js m s = deliver i s"
      using Cons.prems False by (intro Cons.IH) auto
    ultimately show ?thesis by (simp add: mask_test)
  qed
qed

lemma scan_ints_none:
  "\<forall>j\<in>set js. \<not> bit m j \<Longrightarrow> scan_ints js m s = Inr s"
  by (induction js) (simp_all add: mask_test)

lemma push_regs_ok:
  assumes "length (reg s) = 8" and "length (ram s) = 256"
    and "- 249 \<le> reg s ! 7" and "reg s ! 7 \<le> 256"
  shows "push_regs [0, 1, 2, 3, 4, 5, 6] s =
     Inr (s\<lparr>reg := (reg s)[7 := reg s ! 7 - 7],
            ram := (ram s)[cell (reg s ! 7 - 1) := reg s ! 0, cell (reg s ! 7 - 2) := reg s ! 1,
                           cell (reg s ! 7 - 3) := reg s ! 2, cell (reg s ! 7 - 4) := reg s ! 3,
                           cell (reg s ! 7 - 5) := reg s ! 4, cell (reg s ! 7 - 6) := reg s ! 5,
                           cell (reg s ! 7 - 7) := reg s ! 6]\<rparr>)"
  using assms
  by (simp add: reg_get_def list_get_def py_index_def push_val_ok)

lemma deliver_ok:
  assumes "length (reg s) = 8" and "length (ram s) = 256" and "i < 8"
    and "- 247 \<le> reg s ! 7" and "reg s ! 7 \<le> 256"
  shows "deliver i s =
     Inr (s\<lparr>pc := (ram s)[cell (reg s ! 7 - 1) := pc s, cell (reg s ! 7 - 2) := fl s,
                 cell (reg s ! 7 - 3) := reg s ! 0, cell (reg s ! 7 - 4) := reg s ! 1,
                 cell (reg s ! 7 - 5) := reg s ! 2, cell (reg s ! 7 - 6) := reg s ! 3,
                 cell (reg s ! 7 - 7) := reg s ! 4, cell (reg s ! 7 - 8) := reg s ! 5,
                 cell (reg s ! 7 - 9) := reg s ! 6 AND NOT (push_bit i 1)] ! (0xf8 + i),
            ie := 0,
            ram := (ram s)[cell (reg s ! 7 - 1) := pc s, cell (reg s ! 7 - 2) := fl s,
                 cell (reg s ! 7 - 3) := reg s ! 0, cell (reg s ! 7 - 4) := reg s ! 1,
                 cell (reg s ! 7 - 5) := reg s ! 2, cell (reg s ! 7 - 6) := reg s ! 3,
                 cell (reg s ! 7 - 7) := reg s ! 4, cell (reg s ! 7 - 8) := reg s ! 5,
                 cell (reg s ! 7 - 9) := reg s ! 6 AND NOT (push_bit i 1)],
            reg := (reg s)[6 := reg s ! 6 AND NOT (push_bit i 1), 7 := reg s ! 7 - 9]\<rparr>)"
proof -
  from assms(1) have "reg s \<noteq> []" by auto
  with assms show ?thesis
  apply (simp add: deliver_def Let_def IS_def reg_get_def reg_set_def list_get_def list_set_def py_index_def push_val_ok push_regs_ok
     ram_read_def cell_def nat_add_distrib list_update_swap [of 7 6])
  done
qed




lemma handle_ints_deliver:
  assumes "wf_cpu s" and "ie s \<noteq> 0" and "i < 8" and "bit (reg s ! 5 AND reg s ! 6) i"
    and "\<forall>j<i. \<not> bit (reg s ! 5 AND reg s ! 6) j"
  shows "handle_ints s = deliver i s"
proof -
  from assms(1) have len: "length (reg s) = 8"
    by (simp add: wf_cpu_def)
  have "scan_ints [0, 1, 2, 3, 4, 5, 6, 7] (reg s ! 5 AND reg s ! 6) s = deliver i s"
    using assms(3-5) by (intro scan_ints_lowest) auto
  with assms(2) len show ?thesis
    by (simp add: handle_ints_def IM_def IS_def reg_get_def list_get_def py_index_def)
qed

lemma handle_ints_nothing:
  assumes "wf_cpu s" and "ie s = 0 \<or> (\<forall>j<8. \<not> bit (reg s ! 5 AND reg s ! 6) j)"
  shows "handle_ints s = Inr s"
proof (cases "ie s = 0")
  case True
  then show ?thesis by (simp add: handle_ints_def)
next
  case False
  with assms(2) have "\<forall>j\<in>set [0, 1, 2, 3, 4, 5, 6, 7]. \<not> bit (reg s ! 5 AND reg s ! 6) j"
    by simp
  then have "scan_ints [0, 1, 2, 3, 4, 5, 6, 7] (reg s ! 5 AND reg s ! 6) s = Inr s"
    by (rule scan_ints_none)
  with assms(1) False show ?thesis
    by (simp add: handle_ints_def IM_def IS_def reg_get_def list_get_def py_index_def wf_cpu_def)
qed

lemma cleared_bit: "bit (x AND NOT (push_bit i 1)) j \<longleftrightarrow> bit (x::int) j \<and> j \<noteq> i"
  by (auto simp add: bit_and_iff bit_not_iff bit_exp_iff)

lemma frame_outside_vectors:
  assumes "length m = 256" and "9 \<le> sp" and "sp \<le> 0xf8" and "i < 8"
  shows "m[cell (sp - 1) := v1, cell (sp - 2) := v2, cell (sp - 3) := v3, cell (sp - 4) := v4,
           cell (sp - 5) := v5, cell (sp - 6) := v6, cell (sp - 7) := v7, cell (sp - 8) := v8,
           cell (sp - 9) := v9] ! (0xf8 + i) = m ! (0xf8 + i)"
  using assms by (simp add: cell_def nth_list_update)

text \<open>
  C3 (as stated): whenever interrupts are enabled and IM AND IS is not zero, the
  delivery check delivers an interrupt. The check looks at the bits 0 to 7 only, and a
  register can hold more: with IM = IS = 256 the mask is not zero and nothing happens.
  And with a stack pointer outside the memory, here 300, the first push raises
  IndexError.
\<close>

theorem handle_ints_high_bit_counterexample:
  "ie (init_cpu\<lparr>reg := [0, 0, 0, 0, 0, 256, 256, 0xf4]\<rparr>) = 1
   \<and> (256 :: int) AND 256 \<noteq> 0
   \<and> handle_ints (init_cpu\<lparr>reg := [0, 0, 0, 0, 0, 256, 256, 0xf4]\<rparr>)
       = Inr (init_cpu\<lparr>reg := [0, 0, 0, 0, 0, 256, 256, 0xf4]\<rparr>)
   \<and> handle_ints (init_cpu\<lparr>reg := [0, 0, 0, 0, 0, 1, 1, 300]\<rparr>) = Inl (Raised IndexError)"
  by (simp add: handle_ints_def deliver_def IM_def IS_def SP_def reg_get_def reg_set_def
      list_get_def list_set_def py_index_def push_val_def ram_write_def init_cpu_def)

text \<open>
  C3 (amended): let \<open>i\<close> below 8 be the lowest set bit of IM AND IS, with interrupts
  enabled and SP from -247 to 256, so that the nine pushes stay inside the memory. Then
  one delivery check disables interrupts, clears bit \<open>i\<close> of IS and no other bit of it,
  pushes PC, then FL, then the registers 0 to 6 in ascending order (register 6 with
  the bit already cleared), leaves SP nine lower, and sets PC to the content of
  address \<open>0xf8 + i\<close> after the pushes, which is the content before them when the nine
  stack cells lie below the vector table. Only this one interrupt is delivered. If
  interrupts are disabled, or no bit 0 to 7 of IM AND IS is set, the check changes
  nothing.
\<close>

theorem handle_ints_delivers_lowest:
  fixes s :: cpu and i :: nat
  defines "masked \<equiv> reg s ! 5 AND reg s ! 6"
  defines "sp \<equiv> reg s ! 7"
  defines "status \<equiv> reg s ! 6 AND NOT (push_bit i 1)"
  defines "stack \<equiv> (ram s)[cell (sp - 1) := pc s, cell (sp - 2) := fl s,
                 cell (sp - 3) := reg s ! 0, cell (sp - 4) := reg s ! 1,
                 cell (sp - 5) := reg s ! 2, cell (sp - 6) := reg s ! 3,
                 cell (sp - 7) := reg s ! 4, cell (sp - 8) := reg s ! 5,
                 cell (sp - 9) := status]"
  assumes "wf_cpu s"
  shows "(ie s \<noteq> 0 \<and> i < 8 \<and> bit masked i \<and> (\<forall>j<i. \<not> bit masked j)
            \<and> - 247 \<le> sp \<and> sp \<le> 256 \<longrightarrow>
          handle_ints s =
            Inr (s\<lparr>pc := stack ! (0xf8 + i), ie := 0, ram := stack,
                   reg := (reg s)[6 := status, 7 := sp - 9]\<rparr>)
          \<and> (\<forall>j. bit status j \<longleftrightarrow> bit (reg s ! 6) j \<and> j \<noteq> i)
          \<and> (9 \<le> sp \<and> sp \<le> 0xf8 \<longrightarrow> stack ! (0xf8 + i) = ram s ! (0xf8 + i)))
       \<and> (ie s = 0 \<or> (\<forall>j<8. \<not> bit masked j) \<longrightarrow> handle_ints s = Inr s)"
proof -
  from assms(5) have len: "length (reg s) = 8" "length (ram s) = 256"
    by (simp_all add: wf_cpu_def)
  have deliver: "handle_ints s =
            Inr (s\<lparr>pc := stack ! (0xf8 + i), ie := 0, ram := stack,
                   reg := (reg s)[6 := status, 7 := sp - 9]\<rparr>)"
    if "ie s \<noteq> 0" "i < 8" "bit masked i" "\<forall>j<i. \<not> bit masked j" "- 247 \<le> sp" "sp \<le> 256"
  proof -
    have "handle_ints s = deliver i s"
      using assms(5) that(1-4) unfolding masked_def by (rule handle_ints_deliver)
    also have "\<dots> = Inr (s\<lparr>pc := stack ! (0xf8 + i), ie := 0, ram := stack,
                   reg := (reg s)[6 := status, 7 := sp - 9]\<rparr>)"
      using len that(2,5,6) unfolding stack_def status_def sp_def by (rule deliver_ok)
    finally show ?thesis .
  qed
  have vec: "stack ! (0xf8 + i) = ram s ! (0xf8 + i)" if "i < 8" "9 \<le> sp" "sp \<le> 0xf8"
    unfolding stack_def using len(2) that(2,3,1) by (rule frame_outside_vectors)
  have unchanged: "handle_ints s = Inr s" if "ie s = 0 \<or> (\<forall>j<8. \<not> bit masked j)"
    using assms(5) that unfolding masked_def by (rule handle_ints_nothing)
  have bits: "\<forall>j. bit status j \<longleftrightarrow> bit (reg s ! 6) j \<and> j \<noteq> i"
    unfolding status_def by (intro allI cleared_bit)
  show ?thesis
  proof (intro conjI impI)
    assume "ie s \<noteq> 0 \<and> i < 8 \<and> bit masked i \<and> (\<forall>j<i. \<not> bit masked j)
            \<and> - 247 \<le> sp \<and> sp \<le> 256"
    then show "handle_ints s =
            Inr (s\<lparr>pc := stack ! (0xf8 + i), ie := 0, ram := stack,
                   reg := (reg s)[6 := status, 7 := sp - 9]\<rparr>)"
      by (intro deliver) simp_all
  next
    show "\<forall>j. bit status j \<longleftrightarrow> bit (reg s ! 6) j \<and> j \<noteq> i"
      by (rule bits)
  next
    assume "ie s \<noteq> 0 \<and> i < 8 \<and> bit masked i \<and> (\<forall>j<i. \<not> bit masked j)
            \<and> - 247 \<le> sp \<and> sp \<le> 256"
      and "9 \<le> sp \<and> sp \<le> 0xf8"
    then show "stack ! (0xf8 + i) = ram s ! (0xf8 + i)"
      by (intro vec) simp_all
  next
    assume quiet: "ie s = 0 \<or> (\<forall>j<8. \<not> bit masked j)"
    show "handle_ints s = Inr s"
      by (rule unchanged [OF quiet])
  qed
qed

theorem handle_ints_delivers_lowest_witness:
  "wf_cpu (init_cpu\<lparr>pc := 10, fl := 4, reg := [1, 2, 3, 4, 5, 5, 5, 0xf4],
                     ram := (ram init_cpu)[0xf8 := 0x40, 0xfa := 0x50]\<rparr>)
   \<and> handle_ints (init_cpu\<lparr>pc := 10, fl := 4, reg := [1, 2, 3, 4, 5, 5, 5, 0xf4],
                     ram := (ram init_cpu)[0xf8 := 0x40, 0xfa := 0x50]\<rparr>)
       = Inr (init_cpu\<lparr>pc := 0x40, fl := 4, ie := 0, reg := [1, 2, 3, 4, 5, 5, 4, 0xeb],
                ram := (ram init_cpu)[0xf8 := 0x40, 0xfa := 0x50, 0xf3 := 10, 0xf2 := 4,
                         0xf1 := 1, 0xf0 := 2, 0xef := 3, 0xee := 4, 0xed := 5, 0xec := 5,
                         0xeb := 4]\<rparr>)
   \<and> handle_ints (init_cpu\<lparr>ie := 0, reg := [1, 2, 3, 4, 5, 5, 5, 0xf4]\<rparr>)
       = Inr (init_cpu\<lparr>ie := 0, reg := [1, 2, 3, 4, 5, 5, 5, 0xf4]\<rparr>)"
  using handle_ints_delivers_lowest
      [of "init_cpu\<lparr>pc := 10, fl := 4, reg := [1, 2, 3, 4, 5, 5, 5, 0xf4],
                     ram := (ram init_cpu)[0xf8 := 0x40, 0xfa := 0x50]\<rparr>" 0]
    handle_ints_delivers_lowest [of "init_cpu\<lparr>ie := 0, reg := [1, 2, 3, 4, 5, 5, 5, 0xf4]\<rparr>" 0]
  by (simp add: wf_cpu_def init_cpu_def cell_def)

subsection \<open>Return from interrupt\<close>

lemma list8: "length xs = 8 \<Longrightarrow> \<exists>a b c d e f g h. xs = [a,b,c,d,e,f,g,h]"
  by (auto simp add: length_Suc_conv eval_nat_numeral)

lemma pop_regs_ok:
  assumes "length (reg s) = 8" and "length (ram s) = 256"
    and "- 256 \<le> reg s ! 7" and "reg s ! 7 \<le> 249"
  shows "pop_regs [6, 5, 4, 3, 2, 1, 0] s =
     Inr (s\<lparr>reg := [ram s ! cell (reg s ! 7 + 6), ram s ! cell (reg s ! 7 + 5),
                     ram s ! cell (reg s ! 7 + 4), ram s ! cell (reg s ! 7 + 3),
                     ram s ! cell (reg s ! 7 + 2), ram s ! cell (reg s ! 7 + 1),
                     ram s ! cell (reg s ! 7), reg s ! 7 + 7]\<rparr>)"
proof -
  from assms(1) obtain r0 r1 r2 r3 r4 r5 r6 r7 where r: "reg s = [r0, r1, r2, r3, r4, r5, r6, r7]"
    using list8 by blast
  with assms show ?thesis
    by (simp add: phandle_val_ok reg_set_def list_set_def py_index_def add.commute)
qed

lemma handle_iret_ok:
  assumes "length (reg s) = 8" and "length (ram s) = 256"
    and "- 256 \<le> reg s ! 7" and "reg s ! 7 \<le> 247"
  shows "handle_iret a b s =
     Inr (s\<lparr>pc := ram s ! cell (reg s ! 7 + 8), fl := ram s ! cell (reg s ! 7 + 7), ie := 1,
            reg := [ram s ! cell (reg s ! 7 + 6), ram s ! cell (reg s ! 7 + 5),
                     ram s ! cell (reg s ! 7 + 4), ram s ! cell (reg s ! 7 + 3),
                     ram s ! cell (reg s ! 7 + 2), ram s ! cell (reg s ! 7 + 1),
                     ram s ! cell (reg s ! 7), reg s ! 7 + 9]\<rparr>)"
proof -
  have p: "pop_regs [6, 5, 4, 3, 2, 1, 0] s =
     Inr (s\<lparr>reg := [ram s ! cell (reg s ! 7 + 6), ram s ! cell (reg s ! 7 + 5),
                     ram s ! cell (reg s ! 7 + 4), ram s ! cell (reg s ! 7 + 3),
                     ram s ! cell (reg s ! 7 + 2), ram s ! cell (reg s ! 7 + 1),
                     ram s ! cell (reg s ! 7), reg s ! 7 + 7]\<rparr>)"
    using assms by (intro pop_regs_ok) simp_all
  show ?thesis
    unfolding handle_iret_def p using assms by (simp add: phandle_val_ok add.commute)
qed


lemma cell_eq_iff:
  "- 256 \<le> a \<Longrightarrow> a < 256 \<Longrightarrow> - 256 \<le> b \<Longrightarrow> b < 256 \<Longrightarrow> \<bar>a - b\<bar> < 256 \<Longrightarrow>
   (cell a = cell b) = (a = b)"
  by (auto simp add: cell_def)

lemma iret_after_delivery:
  assumes "length (reg s) = 8" and "length m = 256"
    and "- 247 \<le> sp" and "sp \<le> 256" and "reg s ! 7 = sp - 9"
    and "ram s = m[cell (sp - 1) := v1, cell (sp - 2) := v2, cell (sp - 3) := v3,
           cell (sp - 4) := v4, cell (sp - 5) := v5, cell (sp - 6) := v6, cell (sp - 7) := v7,
           cell (sp - 8) := v8, cell (sp - 9) := v9]"
  shows "handle_iret a b s =
           Inr (s\<lparr>pc := v1, fl := v2, ie := 1, reg := [v3, v4, v5, v6, v7, v8, v9, sp]\<rparr>)"
proof -
  have "handle_iret a b s =
     Inr (s\<lparr>pc := ram s ! cell (reg s ! 7 + 8), fl := ram s ! cell (reg s ! 7 + 7), ie := 1,
            reg := [ram s ! cell (reg s ! 7 + 6), ram s ! cell (reg s ! 7 + 5),
                     ram s ! cell (reg s ! 7 + 4), ram s ! cell (reg s ! 7 + 3),
                     ram s ! cell (reg s ! 7 + 2), ram s ! cell (reg s ! 7 + 1),
                     ram s ! cell (reg s ! 7), reg s ! 7 + 9]\<rparr>)"
    using assms by (intro handle_iret_ok) simp_all
  also have "\<dots> = Inr (s\<lparr>pc := v1, fl := v2, ie := 1, reg := [v3, v4, v5, v6, v7, v8, v9, sp]\<rparr>)"
    using assms(2-4) unfolding assms(5,6)
    by (simp add: nth_list_update cell_eq_iff cell_less)
  finally show ?thesis .
qed

lemma delivery_example:
  "handle_ints (init_cpu\<lparr>pc := 10, fl := 4, reg := [1, 2, 3, 4, 5, 1, 1, 0xf4]\<rparr>)
     = Inr (init_cpu\<lparr>pc := 0, fl := 4, ie := 0, reg := [1, 2, 3, 4, 5, 1, 0, 0xeb],
              ram := (ram init_cpu)[0xf3 := 10, 0xf2 := 4, 0xf1 := 1, 0xf0 := 2, 0xef := 3,
                       0xee := 4, 0xed := 5, 0xec := 1, 0xeb := 0]\<rparr>)"
  by code_simp

text \<open>
  C4 (as stated): IRET after a delivery gives the registers 0 to 6, FL and PC their
  values from before the interrupt. The delivery clears the delivered bit of register
  6 before it saves the registers, so IRET restores register 6 without that bit: with
  IM = IS = 1 before the interrupt, register 6 is 0 after IRET.
\<close>

theorem iret_round_trip_counterexample:
  "handle_ints (init_cpu\<lparr>pc := 10, fl := 4, reg := [1, 2, 3, 4, 5, 1, 1, 0xf4]\<rparr>)
     = Inr (init_cpu\<lparr>pc := 0, fl := 4, ie := 0, reg := [1, 2, 3, 4, 5, 1, 0, 0xeb],
              ram := (ram init_cpu)[0xf3 := 10, 0xf2 := 4, 0xf1 := 1, 0xf0 := 2, 0xef := 3,
                       0xee := 4, 0xed := 5, 0xec := 1, 0xeb := 0]\<rparr>)
   \<and> handle_iret 0 0
       (init_cpu\<lparr>pc := 77, fl := 0, ie := 0, reg := [9, 9, 9, 9, 9, 9, 9, 0xeb],
              ram := (ram init_cpu)[0xf3 := 10, 0xf2 := 4, 0xf1 := 1, 0xf0 := 2, 0xef := 3,
                       0xee := 4, 0xed := 5, 0xec := 1, 0xeb := 0]\<rparr>)
     = Inr (init_cpu\<lparr>pc := 10, fl := 4, ie := 1, reg := [1, 2, 3, 4, 5, 1, 0, 0xf4],
              ram := (ram init_cpu)[0xf3 := 10, 0xf2 := 4, 0xf1 := 1, 0xf0 := 2, 0xef := 3,
                       0xee := 4, 0xed := 5, 0xec := 1, 0xeb := 0]\<rparr>)
   \<and> [1, 2, 3, 4, 5, 1, 0, 0xf4] ! 6 \<noteq> [1, 2, 3, 4, 5, 1, 1, 0xf4 :: int] ! 6"
  by code_simp

text \<open>
  C4 (amended): after a delivery of interrupt \<open>i\<close> (hypotheses as for C3), let the
  handler change anything but the memory and SP. Then IRET gives the registers 0 to 5,
  FL and PC their values from before the interrupt, gives register 6 its value from
  before the interrupt with bit \<open>i\<close> cleared (the value the delivery saved), sets SP
  back to its value from before the interrupt, and enables interrupts. It pops in the
  reverse order of the save: the cell at SP goes to register 6, the next ones to the
  registers 5 down to 0, then to FL, then to PC.
\<close>

theorem iret_restores_saved_context:
  fixes s0 s1 s :: cpu and i :: nat
  defines "masked \<equiv> reg s0 ! 5 AND reg s0 ! 6"
  defines "sp \<equiv> reg s ! 7"
  assumes "wf_cpu s0" and "ie s0 \<noteq> 0" and "i < 8" and "bit masked i"
    and "\<forall>j<i. \<not> bit masked j" and "- 247 \<le> reg s0 ! 7" and "reg s0 ! 7 \<le> 256"
    and "handle_ints s0 = Inr s1"
    and "wf_cpu s" and "ram s = ram s1" and "reg s ! 7 = reg s1 ! 7"
  shows "handle_iret a b s =
           Inr (s\<lparr>pc := pc s0, fl := fl s0, ie := 1,
                  reg := (reg s0)[6 := reg s0 ! 6 AND NOT (push_bit i 1)]\<rparr>)
       \<and> handle_iret a b s =
           Inr (s\<lparr>pc := ram s ! cell (sp + 8), fl := ram s ! cell (sp + 7), ie := 1,
                  reg := [ram s ! cell (sp + 6), ram s ! cell (sp + 5), ram s ! cell (sp + 4),
                          ram s ! cell (sp + 3), ram s ! cell (sp + 2), ram s ! cell (sp + 1),
                          ram s ! cell sp, sp + 9]\<rparr>)"
proof -
  from assms(3) have len0: "length (reg s0) = 8" "length (ram s0) = 256"
    by (simp_all add: wf_cpu_def)
  from assms(11) have len: "length (reg s) = 8" "length (ram s) = 256"
    by (simp_all add: wf_cpu_def)
  have "handle_ints s0 = deliver i s0"
    using assms(3-7) unfolding masked_def by (rule handle_ints_deliver)
  with assms(10) have d: "deliver i s0 = Inr s1"
    by simp
  note s1 = d [unfolded deliver_ok [OF len0 assms(5, 8, 9)], simplified]
  have sp: "reg s ! 7 = reg s0 ! 7 - 9"
    using assms(13) len0 by (simp add: s1 [symmetric])
  have mem: "ram s = (ram s0)[cell (reg s0 ! 7 - 1) := pc s0, cell (reg s0 ! 7 - 2) := fl s0,
                 cell (reg s0 ! 7 - 3) := reg s0 ! 0, cell (reg s0 ! 7 - 4) := reg s0 ! 1,
                 cell (reg s0 ! 7 - 5) := reg s0 ! 2, cell (reg s0 ! 7 - 6) := reg s0 ! 3,
                 cell (reg s0 ! 7 - 7) := reg s0 ! 4, cell (reg s0 ! 7 - 8) := reg s0 ! 5,
                 cell (reg s0 ! 7 - 9) := reg s0 ! 6 AND NOT (push_bit i 1)]"
    using assms(12) by (simp add: s1 [symmetric])
  have "handle_iret a b s =
           Inr (s\<lparr>pc := pc s0, fl := fl s0, ie := 1,
                  reg := [reg s0 ! 0, reg s0 ! 1, reg s0 ! 2, reg s0 ! 3, reg s0 ! 4, reg s0 ! 5,
                          reg s0 ! 6 AND NOT (push_bit i 1), reg s0 ! 7]\<rparr>)"
    using len(1) len0(2) assms(8, 9) sp mem by (rule iret_after_delivery)
  moreover have "[reg s0 ! 0, reg s0 ! 1, reg s0 ! 2, reg s0 ! 3, reg s0 ! 4, reg s0 ! 5,
                  reg s0 ! 6 AND NOT (push_bit i 1), reg s0 ! 7]
                 = (reg s0)[6 := reg s0 ! 6 AND NOT (push_bit i 1)]"
    using list8 [OF len0(1)] by auto
  ultimately have restored: "handle_iret a b s =
           Inr (s\<lparr>pc := pc s0, fl := fl s0, ie := 1,
                  reg := (reg s0)[6 := reg s0 ! 6 AND NOT (push_bit i 1)]\<rparr>)"
    by simp
  have order: "handle_iret a b s =
           Inr (s\<lparr>pc := ram s ! cell (sp + 8), fl := ram s ! cell (sp + 7), ie := 1,
                  reg := [ram s ! cell (sp + 6), ram s ! cell (sp + 5), ram s ! cell (sp + 4),
                          ram s ! cell (sp + 3), ram s ! cell (sp + 2), ram s ! cell (sp + 1),
                          ram s ! cell sp, sp + 9]\<rparr>)"
    unfolding sp_def using len sp assms(8, 9) by (intro handle_iret_ok) simp_all
  from restored order show ?thesis
    by (rule conjI)
qed

theorem iret_restores_saved_context_witness:
  "wf_cpu (init_cpu\<lparr>pc := 10, fl := 4, reg := [1, 2, 3, 4, 5, 1, 1, 0xf4]\<rparr>)
   \<and> bit ([1, 2, 3, 4, 5, 1, 1, 0xf4 :: int] ! 5 AND [1, 2, 3, 4, 5, 1, 1, 0xf4] ! 6) (0 :: nat)
   \<and> handle_iret 0 0
       (init_cpu\<lparr>pc := 77, fl := 0, ie := 0, reg := [9, 9, 9, 9, 9, 9, 9, 0xeb],
              ram := (ram init_cpu)[0xf3 := 10, 0xf2 := 4, 0xf1 := 1, 0xf0 := 2, 0xef := 3,
                       0xee := 4, 0xed := 5, 0xec := 1, 0xeb := 0]\<rparr>)
     = Inr (init_cpu\<lparr>pc := 10, fl := 4, ie := 1, reg := [1, 2, 3, 4, 5, 1, 0, 0xf4],
              ram := (ram init_cpu)[0xf3 := 10, 0xf2 := 4, 0xf1 := 1, 0xf0 := 2, 0xef := 3,
                       0xee := 4, 0xed := 5, 0xec := 1, 0xeb := 0]\<rparr>)"
  using iret_restores_saved_context
      [of "init_cpu\<lparr>pc := 10, fl := 4, reg := [1, 2, 3, 4, 5, 1, 1, 0xf4]\<rparr>" 0
          "init_cpu\<lparr>pc := 0, fl := 4, ie := 0, reg := [1, 2, 3, 4, 5, 1, 0, 0xeb],
              ram := (ram init_cpu)[0xf3 := 10, 0xf2 := 4, 0xf1 := 1, 0xf0 := 2, 0xef := 3,
                       0xee := 4, 0xed := 5, 0xec := 1, 0xeb := 0]\<rparr>"
          "init_cpu\<lparr>pc := 77, fl := 0, ie := 0, reg := [9, 9, 9, 9, 9, 9, 9, 0xeb],
              ram := (ram init_cpu)[0xf3 := 10, 0xf2 := 4, 0xf1 := 1, 0xf0 := 2, 0xef := 3,
                       0xee := 4, 0xed := 5, 0xec := 1, 0xeb := 0]\<rparr>" 0 0]
    delivery_example
  by (simp add: wf_cpu_def init_cpu_def)

end
